theory Spec2Isabelle
  imports Complex_Main
begin

section \<open>Data model\<close>

text \<open>
  The dictionary \<^verbatim>\<open>input_data\<close> that \<^verbatim>\<open>main\<close> builds from the form (app.py, lines 530-542)
  and that \<^verbatim>\<open>predict_insomnia_rule_based\<close> and \<^verbatim>\<open>preprocess_input\<close> read. Every key holds
  the type its widget returns: text for the select boxes and text inputs, \<open>int\<close> for the
  integer number inputs and sliders, and a Python float for the sleep duration, which
  is modelled as the exact rational it denotes. \<^verbatim>\<open>preprocess_input\<close> tests whether the key
  \<^verbatim>\<open>'Blood Pressure'\<close> is present at all, so this one field is optional: \<open>None\<close> is
  a dictionary without the key.
\<close>

record input_record =
  Gender :: string
  Age :: int
  Occupation :: string
  Sleep_Duration :: rat
  Quality_of_Sleep :: int
  Physical_Activity_Level :: int
  Stress_Level :: int
  BMI_Category :: string
  Blood_Pressure :: "string option"
  Heart_Rate :: int
  Daily_Steps :: int

section \<open>The rule-based scorer\<close>

text \<open>
  \<^verbatim>\<open>predict_insomnia_rule_based\<close>, lines 169-180: the local variable \<^verbatim>\<open>score\<close> starts at 0
  and is increased by five independent \<^verbatim>\<open>if\<close> statements, in this order.
\<close>

definition rule_score :: "input_record \<Rightarrow> int" where
  "rule_score d =
     (let score = 0;
          score = (if Sleep_Duration d < 6 then score + 2 else score);
          score = (if Quality_of_Sleep d < 5 then score + 2 else score);
          score = (if Stress_Level d > 7 then score + 2 else score);
          score = (if Physical_Activity_Level d < 4 then score + 1 else score);
          score = (if BMI_Category d = ''Obese'' then score + 1 else score)
      in score)"

text \<open>
  Lines 181-203: the \<^verbatim>\<open>if/elif\<close> chain from the score to the prediction (1 is insomnia,
  0 is normal) and the two-element list \<^verbatim>\<open>[Normal, Insomnia]\<close> of probabilities, a pair
  here. The decimal literals are the rationals they denote.
\<close>

definition score_to_result :: "int \<Rightarrow> int \<times> (rat \<times> rat)" where
  "score_to_result score =
     (if score \<ge> 6 then (1, (1/10, 9/10))
      else if score = 5 then (1, (25/100, 75/100))
      else if score = 4 then (1, (4/10, 6/10))
      else if score = 3 then (1, (55/100, 45/100))
      else if score = 2 then (0, (7/10, 3/10))
      else if score = 1 then (0, (8/10, 2/10))
      else (0, (9/10, 1/10)))"

definition predict_insomnia_rule_based :: "input_record \<Rightarrow> int \<times> (rat \<times> rat)" where
  "predict_insomnia_rule_based d = score_to_result (rule_score d)"

text \<open>
  The conditions of the five \<^verbatim>\<open>if\<close> statements of lines 171-179, in the order of the
  source, and the amount each adds to the score.
\<close>

definition triggers :: "input_record \<Rightarrow> bool list" where
  "triggers d =
     [Sleep_Duration d < 6, Quality_of_Sleep d < 5, Stress_Level d > 7,
      Physical_Activity_Level d < 4, BMI_Category d = ''Obese'']"

definition weights :: "int list" where
  "weights = [2, 2, 2, 1, 1]"

text \<open>Scenario A and scenario B of the specification, the other fields at the form's defaults.\<close>

definition scenario_A :: input_record where
  "scenario_A =
     \<lparr>Gender = ''Female'', Age = 30, Occupation = ''Engineer'', Sleep_Duration = 5,
      Quality_of_Sleep = 4, Physical_Activity_Level = 3, Stress_Level = 8,
      BMI_Category = ''Obese'', Blood_Pressure = Some ''120/80'', Heart_Rate = 80,
      Daily_Steps = 8000\<rparr>"

definition scenario_B :: input_record where
  "scenario_B =
     \<lparr>Gender = ''Female'', Age = 30, Occupation = ''Engineer'', Sleep_Duration = 7,
      Quality_of_Sleep = 7, Physical_Activity_Level = 5, Stress_Level = 5,
      BMI_Category = ''Normal'', Blood_Pressure = Some ''120/80'', Heart_Rate = 80,
      Daily_Steps = 8000\<rparr>"

section \<open>Binary64 arithmetic\<close>

text \<open>
  Python floats are IEEE-754 binary64 numbers. A finite double is a rational, and each
  operation returns the exact result rounded to the nearest double, ties to the even
  significand. \<open>expo n x\<close> is the binary exponent of a positive \<open>x\<close> (the \<open>e\<close> with
  \<open>2^e \<le> x < 2^(e+1)\<close>), found in at most \<open>n\<close> halvings or doublings; \<open>b64 x\<close> rounds
  \<open>x\<close> to 53 significant bits, with the subnormal spacing below \<open>2^-1022\<close>. Overflow to
  infinity is not modelled: every value rounded below is smaller than 128.
\<close>

fun expo :: "nat \<Rightarrow> rat \<Rightarrow> int" where
  "expo 0 x = 0"
| "expo (Suc n) x =
     (if x < 1 then expo n (2 * x) - 1 else if 2 \<le> x then expo n (x / 2) + 1 else 0)"

definition pow2 :: "int \<Rightarrow> rat" where
  "pow2 e = (if 0 \<le> e then 2 ^ nat e else 1 / 2 ^ nat (- e))"

definition round_even :: "rat \<Rightarrow> int" where
  "round_even y =
     (let n = \<lfloor>y\<rfloor>; r = y - of_int n
      in if r < 1/2 then n else if 1/2 < r then n + 1 else if even n then n else n + 1)"

definition b64 :: "rat \<Rightarrow> rat" where
  "b64 x =
     (if x = 0 then 0
      else let a = \<bar>x\<bar>;
               e = max (expo 1100 a) (- 1022);
               q = pow2 (e - 52)
           in sgn x * of_int (round_even (a / q)) * q)"

definition fadd :: "rat \<Rightarrow> rat \<Rightarrow> rat" where
  "fadd x y = b64 (x + y)"

definition fmul :: "rat \<Rightarrow> rat \<Rightarrow> rat" where
  "fmul x y = b64 (x * y)"

section \<open>Python strings and \<^verbatim>\<open>float()\<close>\<close>

text \<open>
  Strings are byte strings here, and the text the functions below look at is ASCII.
  \<open>str_split c s\<close> is \<^verbatim>\<open>s.split(c)\<close> for a one-character separator: the pieces between
  the separators, so a string with \<open>n\<close> separators has \<open>n + 1\<close> pieces.
\<close>

fun str_split :: "char \<Rightarrow> string \<Rightarrow> string list" where
  "str_split c [] = [[]]"
| "str_split c (x # xs) =
     (if x = c then [] # str_split c xs
      else (case str_split c xs of [] \<Rightarrow> [[x]] | p # ps \<Rightarrow> (x # p) # ps))"

definition is_space :: "char \<Rightarrow> bool" where
  "is_space c =
     (c \<in> set [CHR '' '', CHR 0x09, CHR 0x0A, CHR 0x0B, CHR 0x0C, CHR 0x0D,
                CHR 0x1C, CHR 0x1D, CHR 0x1E, CHR 0x1F])"

definition strip :: "string \<Rightarrow> string" where
  "strip s = rev (dropWhile is_space (rev (dropWhile is_space s)))"

definition is_digit :: "char \<Rightarrow> bool" where
  "is_digit c = (c \<in> set ''0123456789'')"

definition lower :: "char \<Rightarrow> char" where
  "lower c =
     (if (65::nat) \<le> of_char c \<and> of_char c \<le> (90::nat)
      then char_of (of_char c + (32::nat)) else c)"

text \<open>
  A cell of a data frame, and the value of a Python float: a string, a finite number
  (the exact rational; the rounding to binary64 is left out), the two infinities, or
  NaN, which is also what pandas stores for a missing value.
\<close>

datatype cell = Str string | Num rat | PInf | NInf | NaN

fun cell_neg :: "cell \<Rightarrow> cell" where
  "cell_neg (Num x) = Num (- x)"
| "cell_neg PInf = NInf"
| "cell_neg NInf = PInf"
| "cell_neg c = c"

text \<open>
  \<^verbatim>\<open>float(s)\<close> on a string, by the grammar of the language reference; \<open>None\<close> is the
  \<^verbatim>\<open>ValueError\<close> it raises.
  \<^verbatim>\<open>
  digitpart     ::= digit (["_"] digit)*
  number        ::= [digitpart] "." digitpart | digitpart ["."]
  exponent      ::= ("e" | "E") [sign] digitpart
  floatnumber   ::= number [exponent]
  absfloatvalue ::= floatnumber | infinity | nan
  floatvalue    ::= [sign] absfloatvalue
  \<close>
  Leading and trailing whitespace is removed first, and the case of \<^verbatim>\<open>inf\<close>,
  \<^verbatim>\<open>infinity\<close> and \<^verbatim>\<open>nan\<close> does not matter.
\<close>

fun digitpart :: "string \<Rightarrow> bool" where
  "digitpart [] = False"
| "digitpart [c] = is_digit c"
| "digitpart (c # c' # cs) =
     (is_digit c \<and> (if c' = CHR ''_'' then digitpart cs else digitpart (c' # cs)))"

definition digits_val :: "string \<Rightarrow> nat" where
  "digits_val s = foldl (\<lambda>n c. if is_digit c then 10 * n + (of_char c - 48) else n) 0 s"

definition number :: "string \<Rightarrow> rat option" where
  "number s =
     (let i = takeWhile (\<lambda>c. c \<noteq> CHR ''.'') s;
          r = dropWhile (\<lambda>c. c \<noteq> CHR ''.'') s
      in case r of
           [] \<Rightarrow> if digitpart i then Some (of_nat (digits_val i)) else None
         | _ # f \<Rightarrow>
             if (i = [] \<or> digitpart i) \<and> (f = [] \<or> digitpart f) \<and> \<not> (i = [] \<and> f = [])
             then Some (of_nat (digits_val i)
                        + of_nat (digits_val f) / 10 ^ length (filter is_digit f))
             else None)"

definition exponent :: "string \<Rightarrow> int option" where
  "exponent s =
     (case s of
        [] \<Rightarrow> None
      | c # r \<Rightarrow>
          if c = CHR ''+'' then (if digitpart r then Some (int (digits_val r)) else None)
          else if c = CHR ''-'' then (if digitpart r then Some (- int (digits_val r)) else None)
          else if digitpart s then Some (int (digits_val s)) else None)"

definition pow10 :: "int \<Rightarrow> rat" where
  "pow10 k = (if 0 \<le> k then 10 ^ nat k else 1 / 10 ^ nat (- k))"

definition floatnumber :: "string \<Rightarrow> cell option" where
  "floatnumber s =
     (let m = takeWhile (\<lambda>c. c \<noteq> CHR ''e'' \<and> c \<noteq> CHR ''E'') s;
          r = dropWhile (\<lambda>c. c \<noteq> CHR ''e'' \<and> c \<noteq> CHR ''E'') s
      in case number m of
           None \<Rightarrow> None
         | Some v \<Rightarrow>
             (case r of
                [] \<Rightarrow> Some (Num v)
              | _ # ex \<Rightarrow>
                  (case exponent ex of None \<Rightarrow> None | Some k \<Rightarrow> Some (Num (v * pow10 k)))))"

definition absfloatvalue :: "string \<Rightarrow> cell option" where
  "absfloatvalue s =
     (let l = map lower s
      in if l = ''inf'' \<or> l = ''infinity'' then Some PInf
         else if l = ''nan'' then Some NaN
         else floatnumber s)"

definition py_float :: "string \<Rightarrow> cell option" where
  "py_float s =
     (case strip s of
        [] \<Rightarrow> None
      | c # r \<Rightarrow>
          if c = CHR ''+'' then absfloatvalue r
          else if c = CHR ''-'' then map_option cell_neg (absfloatvalue r)
          else absfloatvalue (c # r))"

section \<open>The feature deriver\<close>

text \<open>
  The data frame of \<^verbatim>\<open>preprocess_input\<close> has one row, so it is the list of its columns
  in order, each with the cell of that row. \<open>df_set\<close> is the assignment
  \<^verbatim>\<open>df[k] = v\<close> (an existing column keeps its place, a new one goes last), \<open>df_drop\<close>
  is \<^verbatim>\<open>df.drop(columns=[k])\<close> and \<open>df_select\<close> is \<^verbatim>\<open>df[columns]\<close>, which raises
  \<^verbatim>\<open>KeyError\<close> for a column that is not there (the error here names the first such
  column, pandas lists all of them).
\<close>

type_synonym dataframe = "(string \<times> cell) list"

datatype error = ValueError string | KeyError string

fun df_set :: "dataframe \<Rightarrow> string \<Rightarrow> cell \<Rightarrow> dataframe" where
  "df_set [] k v = [(k, v)]"
| "df_set ((k', v') # df) k v =
     (if k' = k then (k, v) # df else (k', v') # df_set df k v)"

definition df_drop :: "dataframe \<Rightarrow> string \<Rightarrow> dataframe" where
  "df_drop df k = filter (\<lambda>(k', v). k' \<noteq> k) df"

fun df_select :: "dataframe \<Rightarrow> string list \<Rightarrow> error + dataframe" where
  "df_select df [] = Inr []"
| "df_select df (k # ks) =
     (case map_of df k of
        None \<Rightarrow> Inl (KeyError k)
      | Some v \<Rightarrow> (case df_select df ks of Inl e \<Rightarrow> Inl e | Inr r \<Rightarrow> Inr ((k, v) # r)))"

text \<open>
  \<^verbatim>\<open>pd.DataFrame([data])\<close>: one column for each key of the dictionary, in the order in
  which \<^verbatim>\<open>main\<close> writes the keys.
\<close>

definition DataFrame :: "input_record \<Rightarrow> dataframe" where
  "DataFrame data =
     [(''Gender'', Str (Gender data)), (''Age'', Num (of_int (Age data))),
      (''Occupation'', Str (Occupation data)),
      (''Sleep Duration'', Num (Sleep_Duration data)),
      (''Quality of Sleep'', Num (of_int (Quality_of_Sleep data))),
      (''Physical Activity Level'', Num (of_int (Physical_Activity_Level data))),
      (''Stress Level'', Num (of_int (Stress_Level data))),
      (''BMI Category'', Str (BMI_Category data))]
     @ (case Blood_Pressure data of None \<Rightarrow> [] | Some bp \<Rightarrow> [(''Blood Pressure'', Str bp)])
     @ [(''Heart Rate'', Num (of_int (Heart_Rate data))),
        (''Daily Steps'', Num (of_int (Daily_Steps data)))]"

text \<open>
  \<^verbatim>\<open>Series.map(dict)\<close> on one cell: the value the dictionary gives, and NaN for a cell
  that is not one of its keys.
\<close>

definition series_map :: "(string \<times> cell) list \<Rightarrow> cell \<Rightarrow> cell" where
  "series_map m c =
     (case c of
        Str s \<Rightarrow> (case map_of m s of None \<Rightarrow> NaN | Some v \<Rightarrow> v)
      | _ \<Rightarrow> NaN)"

definition gender_mapping :: "(string \<times> cell) list" where
  "gender_mapping = [(''Female'', Num 0), (''Male'', Num 1)]"

definition bmi_mapping :: "(string \<times> cell) list" where
  "bmi_mapping =
     [(''Normal'', Num 0), (''Normal Weight'', Num 0), (''Overweight'', Num 1),
      (''Obese'', Num 2), (''Underweight'', Num 0)]"

text \<open>
  The division of two numeric columns. pandas does not raise on a zero divisor: the
  quotient is an infinity with the sign of the dividend, and NaN for 0/0.
\<close>

definition fdiv :: "rat \<Rightarrow> rat \<Rightarrow> cell" where
  "fdiv x y =
     (if y \<noteq> 0 then Num (x / y) else if 0 < x then PInf else if x < 0 then NInf else NaN)"

definition expected_columns :: "string list" where
  "expected_columns =
     [''Gender'', ''Age'', ''Sleep Duration'', ''Quality of Sleep'',
      ''Physical Activity Level'', ''Stress Level'', ''BMI Category'', ''Heart Rate'',
      ''Daily Steps'', ''Systolic'', ''Diastolic'', ''Sleep_Efficiency'',
      ''Stress_Sleep_Interaction'', ''Activity_Efficiency'', ''Stress_Sleep_Ratio'',
      ''Sleep_Age_Ratio'']"

text \<open>
  Lines 101-116 of \<^verbatim>\<open>preprocess_input\<close>: the five derived columns, then the selection
  of the expected columns. The columns that enter the arithmetic are the numeric
  fields of the record, unchanged since the frame was built, so the operands are read
  from the record.
\<close>

definition derive_features :: "input_record \<Rightarrow> dataframe \<Rightarrow> error + dataframe" where
  "derive_features data df =
     (let df = df_set df ''Sleep_Efficiency'' (fdiv (Sleep_Duration data) 24);
          df = df_set df ''Stress_Sleep_Interaction''
                 (Num (of_int (Stress_Level data * Quality_of_Sleep data)));
          df = df_set df ''Activity_Efficiency''
                 (fdiv (of_int (Daily_Steps data)) (of_int (Physical_Activity_Level data + 1)));
          df = df_set df ''Stress_Sleep_Ratio''
                 (fdiv (of_int (Stress_Level data)) (of_int (Quality_of_Sleep data + 1)));
          df = df_set df ''Sleep_Age_Ratio''
                 (fdiv (Sleep_Duration data) (of_int (Age data + 1)))
      in df_select df expected_columns)"

text \<open>
  \<^verbatim>\<open>preprocess_input\<close>, lines 68-116. The result is the list of messages shown with
  \<^verbatim>\<open>st.error\<close> and either the exception raised or the frame returned. The
  \<^verbatim>\<open>try\<close> block of lines 93-98 turns every exception of the two conversions into
  \<^verbatim>\<open>ValueError\<close>.
\<close>

definition preprocess_input :: "input_record \<Rightarrow> string list \<times> (error + dataframe)" where
  "preprocess_input data =
     (let df = DataFrame data;
          df = df_set df ''Gender'' (series_map gender_mapping (Str (Gender data)));
          df = df_set df ''BMI Category'' (series_map bmi_mapping (Str (BMI_Category data)))
      in case Blood_Pressure data of
           None \<Rightarrow> ([], derive_features data df)
         | Some bp_value \<Rightarrow>
             if bp_value = [] \<or> CHR ''/'' \<notin> set bp_value
             then ([''Tekanan darah harus diisi dengan format benar, misal: 120/80''],
                   Inl (ValueError ''Input tekanan darah tidak valid''))
             else
               (case str_split CHR ''/'' bp_value of
                  s0 # s1 # rest \<Rightarrow>
                    (case (py_float s0, py_float s1) of
                       (Some systolic, Some diastolic) \<Rightarrow>
                         (let df = df_set df ''Systolic'' systolic;
                              df = df_set df ''Diastolic'' diastolic;
                              df = df_drop df ''Blood Pressure''
                          in ([], derive_features data df))
                     | _ \<Rightarrow>
                         ([''Tekanan darah harus berupa angka, misal: 120/80''],
                          Inl (ValueError ''Input tekanan darah tidak valid'')))
                | _ \<Rightarrow>
                    ([''Tekanan darah harus berupa angka, misal: 120/80''],
                     Inl (ValueError ''Input tekanan darah tidak valid''))))"

section \<open>The presentation of a result\<close>

text \<open>
  What a run of the script puts on the page, one constructor for each kind of element.
  Static text (headings, the guide, the advice of a tier) is a constant or carries only
  the values formatted into it. The texts of the error messages are written without
  their emoji, markdown marks and quotation marks.
\<close>

datatype tier =
    Risiko_Tinggi | Risiko_Sedang | Risiko_Rendah
  | Sangat_Baik | Baik | Cukup

datatype ui =
    Welcome | Header | Sidebar | Home_Page | Info_Page | Credit_Page | Kembali_Button
  | Error string
  | Heading int
  | Probabilities rat rat
  | Info rat
  | Recommendation tier rat

text \<open>
  \<^verbatim>\<open>display_results\<close>, lines 205-312. \<open>prediction_proba\<close> is \<open>None\<close> or the pair
  \<^verbatim>\<open>[Normal, Insomnia]\<close>. For the prediction 1 the percentage
  \<^verbatim>\<open>insomnia_prob = prediction_proba[1] * 100\<close> selects the advice, for the prediction 0
  the percentage \<^verbatim>\<open>normal_prob = prediction_proba[0] * 100\<close>; any other prediction is
  reported as not recognised.
\<close>

definition display_results :: "int \<Rightarrow> (rat \<times> rat) option \<Rightarrow> ui list" where
  "display_results prediction prediction_proba =
     (if prediction = 1 then
        [Heading 1]
        @ (case prediction_proba of
             None \<Rightarrow> []
           | Some (p0, p1) \<Rightarrow>
               (let insomnia_prob = p1 * 100
                in [Probabilities (p0 * 100) insomnia_prob, Info insomnia_prob]))
        @ (case prediction_proba of
             None \<Rightarrow> []
           | Some (p0, p1) \<Rightarrow>
               (let insomnia_prob = p1 * 100
                in if insomnia_prob \<ge> 80 then [Recommendation Risiko_Tinggi insomnia_prob]
                   else if insomnia_prob \<ge> 60 then [Recommendation Risiko_Sedang insomnia_prob]
                   else [Recommendation Risiko_Rendah insomnia_prob]))
      else if prediction = 0 then
        [Heading 0]
        @ (case prediction_proba of
             None \<Rightarrow> []
           | Some (p0, p1) \<Rightarrow>
               (let normal_prob = p0 * 100
                in [Probabilities normal_prob (p1 * 100), Info normal_prob]))
        @ (case prediction_proba of
             None \<Rightarrow> []
           | Some (p0, p1) \<Rightarrow>
               (let normal_prob = p0 * 100
                in if normal_prob \<ge> 90 then [Recommendation Sangat_Baik normal_prob]
                   else if normal_prob \<ge> 70 then [Recommendation Baik normal_prob]
                   else [Recommendation Cukup normal_prob]))
      else [Error ''Hasil prediksi tidak dikenali.''])"


section \<open>The application\<close>

text \<open>
  \<^verbatim>\<open>st.session_state\<close> with the three keys the script uses; \<open>None\<close> is a key that is
  not set. The widgets of one run of the script: the buttons that were pressed and the
  values in the form.
\<close>

record session_state =
  started :: "bool option"
  page :: "string option"
  input_data :: "input_record option"

record form_values =
  gender :: string
  age :: int
  occupation :: string
  sleep_duration :: rat
  quality_of_sleep :: int
  physical_activity :: int
  stress_level :: int
  bmi_category :: string
  blood_pressure :: string
  heart_rate :: int
  daily_steps :: int

record widgets =
  btn_mulai :: bool
  btn_home :: bool
  btn_info :: bool
  btn_credit :: bool
  form :: form_values
  submit :: bool
  btn_kembali :: bool

text \<open>
  \<^verbatim>\<open>load_model\<close>, lines 58-66. The argument is what \<^verbatim>\<open>joblib.load('insomnia.joblib')\<close>
  does: it returns the classifier or raises an exception with a message. The exception
  is caught, shown and turned into \<^verbatim>\<open>None\<close>. The classifier itself is opaque.
\<close>

definition load_model :: "string + 'm \<Rightarrow> ui list \<times> 'm option" where
  "load_model joblib_load =
     (case joblib_load of
        Inr model \<Rightarrow> ([], Some model)
      | Inl e \<Rightarrow> ([Error (''Error loading model: '' @ e)], None))"

text \<open>
  The checks of a submitted form, lines 494-528, in the order of the source: the
  message of the first check that fails. A Python value is false when it is an empty
  string or the number 0. \<^verbatim>\<open>isalpha\<close> is taken over the ASCII letters.
\<close>

definition is_alpha :: "char \<Rightarrow> bool" where
  "is_alpha c =
     ((65::nat) \<le> of_char c \<and> of_char c \<le> (90::nat)
      \<or> (97::nat) \<le> of_char c \<and> of_char c \<le> (122::nat))"

definition isalpha :: "string \<Rightarrow> bool" where
  "isalpha s = (s \<noteq> [] \<and> list_all is_alpha s)"

definition validate_form :: "form_values \<Rightarrow> string option" where
  "validate_form f =
     (if gender f = [] \<or> age f = 0 \<or> occupation f = [] \<or> sleep_duration f = 0
         \<or> quality_of_sleep f = 0 \<or> physical_activity f = 0 \<or> stress_level f = 0
         \<or> bmi_category f = [] \<or> blood_pressure f = [] \<or> heart_rate f = 0
         \<or> daily_steps f = 0
      then Some (''Mohon lengkapi semua data yang diperlukan! ''
                 @ ''Semua field harus diisi sebelum melakukan prediksi.'')
      else if occupation f = [] \<or> strip (occupation f) = []
      then Some ''Pekerjaan harus diisi!''
      else if \<not> isalpha (filter (\<lambda>c. c \<noteq> CHR ''.'')
                    (filter (\<lambda>c. c \<noteq> CHR ''-'') (filter (\<lambda>c. c \<noteq> CHR '' '') (occupation f))))
      then Some ''Pekerjaan hanya boleh berisi huruf! Contoh: Guru, Dokter, Programmer, dll.''
      else if blood_pressure f = [] \<or> CHR ''/'' \<notin> set (blood_pressure f)
      then Some ''Tekanan darah harus diisi dengan format yang benar! Contoh: 120/80''
      else if age f < 18 \<or> age f > 100
      then Some ''Usia harus antara 18-100 tahun!''
      else if sleep_duration f < 3 \<or> sleep_duration f > 12
      then Some ''Durasi tidur harus antara 3-12 jam!''
      else if heart_rate f < 40 \<or> heart_rate f > 200
      then Some ''Detak jantung harus antara 40-200 bpm!''
      else if daily_steps f < 1000 \<or> daily_steps f > 20000
      then Some ''Langkah harian harus antara 1000-20000 langkah!''
      else None)"

text \<open>The dictionary \<^verbatim>\<open>input_data\<close> of lines 530-542.\<close>

definition make_input_data :: "form_values \<Rightarrow> input_record" where
  "make_input_data f =
     \<lparr>Gender = gender f, Age = age f, Occupation = occupation f,
      Sleep_Duration = sleep_duration f, Quality_of_Sleep = quality_of_sleep f,
      Physical_Activity_Level = physical_activity f, Stress_Level = stress_level f,
      BMI_Category = bmi_category f, Blood_Pressure = Some (blood_pressure f),
      Heart_Rate = heart_rate f, Daily_Steps = daily_steps f\<rparr>"

text \<open>
  One run of \<^verbatim>\<open>main\<close>, lines 358-636: from the outcome of loading the artifact, the
  widgets and the session state to the new session state, the elements put on the page
  and whether the run ended in \<^verbatim>\<open>st.rerun()\<close>. The pages are the branches of lines
  421-636.
\<close>

definition home_page :: "widgets \<Rightarrow> session_state \<Rightarrow> session_state \<times> ui list \<times> bool" where
  "home_page w s =
     (if submit w then
        (case validate_form (form w) of
           Some msg \<Rightarrow> (s, [Home_Page, Error msg], False)
         | None \<Rightarrow>
             (s\<lparr>input_data := Some (make_input_data (form w)), page := Some ''result''\<rparr>,
              [Home_Page], True))
      else (s, [Home_Page], False))"

definition result_page ::
  "string + 'm \<Rightarrow> widgets \<Rightarrow> session_state \<Rightarrow> session_state \<times> ui list \<times> bool" where
  "result_page joblib_load w s =
     (let out =
        (case input_data s of
           None \<Rightarrow> []
         | Some d \<Rightarrow>
             (let (out_model, model) = load_model joblib_load;
                  (prediction, prediction_proba) = predict_insomnia_rule_based d
              in out_model @ display_results prediction (Some prediction_proba)))
      in if btn_kembali w
         then (s\<lparr>page := Some ''home''\<rparr>, out @ [Kembali_Button], True)
         else (s, out @ [Kembali_Button], False))"

definition main ::
  "string + 'm \<Rightarrow> widgets \<Rightarrow> session_state \<Rightarrow> session_state \<times> ui list \<times> bool" where
  "main joblib_load w s =
     (let s = (if started s = None then s\<lparr>started := Some False\<rparr> else s)
      in if started s \<noteq> Some True
         then ((if btn_mulai w then s\<lparr>started := Some True\<rparr> else s), [Welcome], False)
         else
           (let (out_model, model) = load_model joblib_load
            in if model = None
               then (s, [Header] @ out_model
                        @ [Error (''Model tidak dapat dimuat. ''
                                  @ ''Pastikan file rforest_model.joblib tersedia.'')],
                     False)
               else
                 (let s = (if page s = None then s\<lparr>page := Some ''home''\<rparr> else s);
                      s = (if btn_home w then s\<lparr>page := Some ''home''\<rparr> else s);
                      s = (if btn_info w then s\<lparr>page := Some ''info''\<rparr> else s);
                      s = (if btn_credit w then s\<lparr>page := Some ''credit''\<rparr> else s);
                      (s, out, rerun) =
                        (if page s = Some ''home'' then home_page w s
                         else if page s = Some ''result'' then result_page joblib_load w s
                         else if page s = Some ''info'' then (s, [Info_Page], False)
                         else if page s = Some ''credit'' then (s, [Credit_Page], False)
                         else (s, [], False))
                  in (s, [Header] @ out_model @ [Sidebar] @ out, rerun))))"

text \<open>
  \<^verbatim>\<open>st.rerun()\<close> stops the run and starts the script again with the session state it
  left; in the new run no button is pressed. \<open>run\<close> is what the user sees after one
  interaction: the page of the last run.
\<close>

definition no_events :: "widgets \<Rightarrow> widgets" where
  "no_events w =
     w\<lparr>btn_mulai := False, btn_home := False, btn_info := False, btn_credit := False,
       submit := False, btn_kembali := False\<rparr>"

definition run ::
  "string + 'm \<Rightarrow> widgets \<Rightarrow> session_state \<Rightarrow> session_state \<times> ui list \<times> bool" where
  "run joblib_load w s =
     (let (s', out, rerun) = main joblib_load w s
      in if rerun then main joblib_load (no_events w) s' else (s', out, rerun))"

section \<open>Auxiliary definitions for the proofs\<close>

text \<open>
  The score as a weighted count: \<open>weighted ts ws\<close> adds the weight of every condition
  that holds. \<open>table_rows\<close> lists the probability pairs of the seven branches of
  \<open>score_to_result\<close>, in the order of the source.
\<close>

fun weighted :: "bool list \<Rightarrow> int list \<Rightarrow> int" where
  "weighted (t # ts) (w # ws) = (if t then w else 0) + weighted ts ws"
| "weighted _ _ = 0"

definition table_rows :: "(rat \<times> rat) list" where
  "table_rows = [(1/10, 9/10), (25/100, 75/100), (4/10, 6/10), (55/100, 45/100),
                 (7/10, 3/10), (8/10, 2/10), (9/10, 1/10)]"

text \<open>
  The frame \<^verbatim>\<open>preprocess_input\<close> returns when the two blood-pressure pieces parse to
  \<open>sy\<close> and \<open>di\<close>, the outcome of a failed conversion, and the dictionary of
  test_prediction.py.
\<close>

definition feature_row :: "input_record \<Rightarrow> cell \<Rightarrow> cell \<Rightarrow> dataframe" where
  "feature_row d sy di =
     [(''Gender'', series_map gender_mapping (Str (Gender d))),
      (''Age'', Num (of_int (Age d))),
      (''Sleep Duration'', Num (Sleep_Duration d)),
      (''Quality of Sleep'', Num (of_int (Quality_of_Sleep d))),
      (''Physical Activity Level'', Num (of_int (Physical_Activity_Level d))),
      (''Stress Level'', Num (of_int (Stress_Level d))),
      (''BMI Category'', series_map bmi_mapping (Str (BMI_Category d))),
      (''Heart Rate'', Num (of_int (Heart_Rate d))),
      (''Daily Steps'', Num (of_int (Daily_Steps d))),
      (''Systolic'', sy), (''Diastolic'', di),
      (''Sleep_Efficiency'', fdiv (Sleep_Duration d) 24),
      (''Stress_Sleep_Interaction'', Num (of_int (Stress_Level d * Quality_of_Sleep d))),
      (''Activity_Efficiency'',
         fdiv (of_int (Daily_Steps d)) (of_int (Physical_Activity_Level d + 1))),
      (''Stress_Sleep_Ratio'',
         fdiv (of_int (Stress_Level d)) (of_int (Quality_of_Sleep d + 1))),
      (''Sleep_Age_Ratio'', fdiv (Sleep_Duration d) (of_int (Age d + 1)))]"

definition bp_error :: "string list \<times> (error + dataframe)" where
  "bp_error = ([''Tekanan darah harus berupa angka, misal: 120/80''],
               Inl (ValueError ''Input tekanan darah tidak valid''))"

definition test_data :: input_record where
  "test_data =
     \<lparr>Gender = ''Perempuan'', Age = 30, Occupation = ''Engineer'', Sleep_Duration = 7,
      Quality_of_Sleep = 7, Physical_Activity_Level = 5, Stress_Level = 5,
      BMI_Category = ''Normal'', Blood_Pressure = Some ''120/80'', Heart_Rate = 80,
      Daily_Steps = 8000\<rparr>"

text \<open>
  A form that passes every check of \<^verbatim>\<open>main\<close>, its submission, two session states, the
  message of \<^verbatim>\<open>main\<close> for a missing model, and the elements \<^verbatim>\<open>main\<close> shows for the
  result of the scorer on a record.
\<close>

definition form_A :: form_values where
  "form_A = \<lparr>gender = ''Perempuan'', age = 30, occupation = ''Guru'', sleep_duration = 5,
      quality_of_sleep = 4, physical_activity = 3, stress_level = 8, bmi_category = ''Obese'',
      blood_pressure = ''120/80'', heart_rate = 80, daily_steps = 8000\<rparr>"

definition submit_A :: widgets where
  "submit_A = \<lparr>btn_mulai = False, btn_home = False, btn_info = False, btn_credit = False,
     form = form_A, submit = True, btn_kembali = False\<rparr>"

definition started_home :: session_state where
  "started_home = \<lparr>started = Some True, page = Some ''home'', input_data = None\<rparr>"

definition result_session :: session_state where
  "result_session = \<lparr>started = Some True, page = Some ''result'', input_data = Some scenario_A\<rparr>"

definition model_error :: "ui list" where
  "model_error =
     [Error (''Model tidak dapat dimuat. '' @ ''Pastikan file rforest_model.joblib tersedia.'')]"

definition shown_result :: "input_record \<Rightarrow> ui list" where
  "shown_result d =
     display_results (fst (predict_insomnia_rule_based d))
       (Some (snd (predict_insomnia_rule_based d)))"

section \<open>Properties of the rule-based scorer\<close>

lemma rule_score_eq:
  "rule_score d =
     (if Sleep_Duration d < 6 then 2 else 0) + (if Quality_of_Sleep d < 5 then 2 else 0)
     + (if Stress_Level d > 7 then 2 else 0) + (if Physical_Activity_Level d < 4 then 1 else 0)
     + (if BMI_Category d = ''Obese'' then 1 else 0)"
  by (simp add: rule_score_def Let_def)

lemma rule_score_range: "0 \<le> rule_score d \<and> rule_score d \<le> 8"
  by (simp add: rule_score_eq)

lemma rule_score_weighted: "rule_score d = weighted (triggers d) weights"
  by (simp add: rule_score_eq triggers_def weights_def)

text \<open>
  Claim C1. The scorer returns the row of the fixed table that belongs to its score:
  0 gives (Normal, 0.90, 0.10), 1 gives (Normal, 0.80, 0.20), 2 gives (Normal, 0.70, 0.30),
  3 gives (Insomnia, 0.55, 0.45), 4 gives (Insomnia, 0.40, 0.60), 5 gives
  (Insomnia, 0.25, 0.75) and every score from 6 on gives (Insomnia, 0.10, 0.90). The score
  of every record lies in 0..8, and the prediction is 1 (insomnia) exactly for a score
  of at least 3 and 0 (normal) exactly for a score of at most 2.
\<close>

theorem rule_based_table:
  "score_to_result 0 = (0, (90/100, 10/100))
   \<and> score_to_result 1 = (0, (80/100, 20/100))
   \<and> score_to_result 2 = (0, (70/100, 30/100))
   \<and> score_to_result 3 = (1, (55/100, 45/100))
   \<and> score_to_result 4 = (1, (40/100, 60/100))
   \<and> score_to_result 5 = (1, (25/100, 75/100))
   \<and> score_to_result (6 + int n) = (1, (10/100, 90/100))
   \<and> predict_insomnia_rule_based d = score_to_result (rule_score d)
   \<and> 0 \<le> rule_score d \<and> rule_score d \<le> 8
   \<and> (fst (predict_insomnia_rule_based d) = 1) = (3 \<le> rule_score d)
   \<and> (fst (predict_insomnia_rule_based d) = 0) = (rule_score d \<le> 2)
   \<and> (fst (score_to_result s) = 1) = (3 \<le> s)
   \<and> (fst (score_to_result s) = 0) = (s \<le> 2)"
  by (simp add: score_to_result_def predict_insomnia_rule_based_def rule_score_range)

text \<open>
  Claim C2. The score is the sum of 2 for a sleep duration below 6, 2 for a sleep
  quality below 5, 2 for a stress level above 7, 1 for a physical activity level below 4
  and 1 for the BMI category Obese. Changing any of the other six fields changes neither
  the score nor the result. Scenario A has score 8 and the result (Insomnia, 0.10, 0.90).
\<close>

theorem rule_score_sum:
  "rule_score d =
     (if Sleep_Duration d < 6 then 2 else 0) + (if Quality_of_Sleep d < 5 then 2 else 0)
     + (if Stress_Level d > 7 then 2 else 0) + (if Physical_Activity_Level d < 4 then 1 else 0)
     + (if BMI_Category d = ''Obese'' then 1 else 0)
   \<and> rule_score (d\<lparr>Gender := g, Age := a, Occupation := oc, Blood_Pressure := bp,
                    Heart_Rate := hr, Daily_Steps := ds\<rparr>) = rule_score d
   \<and> predict_insomnia_rule_based (d\<lparr>Gender := g, Age := a, Occupation := oc,
        Blood_Pressure := bp, Heart_Rate := hr, Daily_Steps := ds\<rparr>)
       = predict_insomnia_rule_based d
   \<and> rule_score scenario_A = 8
   \<and> predict_insomnia_rule_based scenario_A = (1, (10/100, 90/100))"
  by (simp add: rule_score_def Let_def predict_insomnia_rule_based_def scenario_A_def
      score_to_result_def)

lemma snd_score_to_result_rows: "snd (score_to_result s) \<in> set table_rows"
  by (simp add: score_to_result_def table_rows_def)

lemma table_rows_sum:
  "\<forall>(pN, pI) \<in> set table_rows.
     pN + pI = 1 \<and> fadd (b64 pN) (b64 pI) = 1 \<and> \<bar>b64 pN + b64 pI - 1\<bar> \<le> 1 / 10 ^ 9"
  by code_simp

text \<open>
  Claim C7. For every record the two probabilities of the result sum to 1: exactly as
  the decimals the source writes, exactly again when both literals are rounded to
  binary64 and added in binary64 arithmetic, and the unrounded sum of the two doubles is
  within \<open>10^-9\<close> of 1.
\<close>

theorem probabilities_sum_to_one:
  "(case predict_insomnia_rule_based d of (prediction, (pN, pI)) \<Rightarrow>
      pN + pI = 1 \<and> fadd (b64 pN) (b64 pI) = 1 \<and> \<bar>b64 pN + b64 pI - 1\<bar> \<le> 1 / 10 ^ 9)"
proof -
  obtain l pN pI where r: "predict_insomnia_rule_based d = (l, (pN, pI))"
    by (metis prod.exhaust)
  then have "(pN, pI) \<in> set table_rows"
    using snd_score_to_result_rows [of "rule_score d"]
    by (simp add: predict_insomnia_rule_based_def)
  with table_rows_sum
  have "pN + pI = 1 \<and> fadd (b64 pN) (b64 pI) = 1 \<and> \<bar>b64 pN + b64 pI - 1\<bar> \<le> 1 / 10 ^ 9"
    by blast
  with r show ?thesis by simp
qed

lemma weighted_one_more:
  assumes "length ts = length ws" and "length ts' = length ts" and "i < length ts"
    and "\<not> ts ! i" and "ts' ! i"
    and "\<forall>j<length ts. j \<noteq> i \<longrightarrow> ts' ! j = ts ! j"
  shows "weighted ts' ws = weighted ts ws + ws ! i"
  using assms
proof (induction ts ws arbitrary: i ts' rule: list_induct2)
  case Nil
  then show ?case by simp
next
  case (Cons t ts w ws)
  obtain t' us where ts': "ts' = t' # us"
    using Cons.prems(1) by (cases ts') auto
  have len: "length us = length ts"
    using Cons.prems(1) ts' by simp
  show ?case
  proof (cases i)
    case 0
    have "us ! j = ts ! j" if "j < length ts" for j
      using Cons.prems(5) that 0 ts' by (auto dest: spec [of _ "Suc j"])
    then have "us = ts"
      using len by (simp add: list_eq_iff_nth_eq)
    with 0 ts' Cons.prems(3,4) show ?thesis by simp
  next
    case (Suc k)
    have t: "t' = t"
      using Cons.prems(5) Suc ts' by (auto dest: spec [of _ 0])
    have rest: "\<forall>j<length ts. j \<noteq> k \<longrightarrow> us ! j = ts ! j"
      using Cons.prems(5) Suc ts' by (auto dest: spec [of _ "Suc j" for j])
    have "weighted us ws = weighted ts ws + ws ! k"
      using Cons.IH [of us k] len Cons.prems(2,3,4) Suc ts' rest by simp
    with t ts' Suc show ?thesis by simp
  qed
qed

text \<open>
  Claim C8. Take two records and one of the five conditions (number \<open>i\<close> in the order of
  the source). If the condition is false in the first record and true in the second, and
  the other four conditions have the same truth values in both, then the score of the
  second record is not smaller: it is larger by exactly the weight of the condition.
\<close>

theorem rule_score_monotonic:
  assumes "i < 5" and "\<not> triggers d ! i" and "triggers d' ! i"
    and "\<forall>j<5. j \<noteq> i \<longrightarrow> triggers d' ! j = triggers d ! j"
  shows "rule_score d \<le> rule_score d' \<and> rule_score d' = rule_score d + weights ! i"
proof -
  have len: "length (triggers d) = 5" "length (triggers d') = 5" "length weights = 5"
    by (simp_all add: triggers_def weights_def)
  have eq: "weighted (triggers d') weights = weighted (triggers d) weights + weights ! i"
    by (rule weighted_one_more) (use assms len in simp_all)
  have "0 \<le> weights ! i"
    using assms(1) by (auto simp: weights_def nth_Cons')
  with eq show ?thesis
    by (simp add: rule_score_weighted)
qed

theorem rule_score_monotonic_witness:
  "(0::nat) < 5 \<and> \<not> triggers scenario_B ! 0
   \<and> triggers (scenario_B\<lparr>Sleep_Duration := 5\<rparr>) ! 0
   \<and> rule_score scenario_B = 0
   \<and> rule_score (scenario_B\<lparr>Sleep_Duration := 5\<rparr>) = 2
   \<and> rule_score scenario_B \<le> rule_score (scenario_B\<lparr>Sleep_Duration := 5\<rparr>)"
proof -
  have h: "\<forall>j<5. j \<noteq> 0 \<longrightarrow>
      triggers (scenario_B\<lparr>Sleep_Duration := 5\<rparr>) ! j = triggers scenario_B ! j"
    by (simp add: triggers_def scenario_B_def nth_Cons')
  have a: "\<not> triggers scenario_B ! 0" "triggers (scenario_B\<lparr>Sleep_Duration := 5\<rparr>) ! 0"
    by (simp_all add: triggers_def scenario_B_def)
  have b: "rule_score scenario_B = 0"
    by (simp add: rule_score_eq scenario_B_def)
  from rule_score_monotonic [of 0 scenario_B "scenario_B\<lparr>Sleep_Duration := 5\<rparr>", OF _ a h]
  show ?thesis using a b by (simp add: weights_def)
qed

section \<open>Properties of the feature deriver\<close>

lemma length_str_split: "length (str_split c s) = Suc (count_list s c)"
  by (induction s) (auto split: list.splits)

lemma str_split_two:
  assumes "c \<in> set s"
  obtains s0 s1 rest where "str_split c s = s0 # s1 # rest"
proof -
  have "0 < count_list s c"
    using assms count_list_0_iff [of s c] by auto
  then have "2 \<le> length (str_split c s)"
    by (simp add: length_str_split)
  then show ?thesis
    using that by (cases "str_split c s" rule: remdups_adj.cases) auto
qed

lemma derive_features_frame:
  "derive_features d
     [(''Gender'', g), (''Age'', a), (''Occupation'', oc), (''Sleep Duration'', sd),
      (''Quality of Sleep'', q), (''Physical Activity Level'', pal), (''Stress Level'', st),
      (''BMI Category'', bmi), (''Heart Rate'', hr), (''Daily Steps'', ds),
      (''Systolic'', sy), (''Diastolic'', di)]
   = Inr [(''Gender'', g), (''Age'', a), (''Sleep Duration'', sd), (''Quality of Sleep'', q),
          (''Physical Activity Level'', pal), (''Stress Level'', st), (''BMI Category'', bmi),
          (''Heart Rate'', hr), (''Daily Steps'', ds), (''Systolic'', sy), (''Diastolic'', di),
          (''Sleep_Efficiency'', fdiv (Sleep_Duration d) 24),
          (''Stress_Sleep_Interaction'', Num (of_int (Stress_Level d * Quality_of_Sleep d))),
          (''Activity_Efficiency'',
             fdiv (of_int (Daily_Steps d)) (of_int (Physical_Activity_Level d + 1))),
          (''Stress_Sleep_Ratio'',
             fdiv (of_int (Stress_Level d)) (of_int (Quality_of_Sleep d + 1))),
          (''Sleep_Age_Ratio'', fdiv (Sleep_Duration d) (of_int (Age d + 1)))]"
  by (simp add: derive_features_def Let_def expected_columns_def)

lemma derive_features_no_bp:
  "derive_features d
     [(''Gender'', g), (''Age'', a), (''Occupation'', oc), (''Sleep Duration'', sd),
      (''Quality of Sleep'', q), (''Physical Activity Level'', pal), (''Stress Level'', st),
      (''BMI Category'', bmi), (''Heart Rate'', hr), (''Daily Steps'', ds)]
   = Inl (KeyError ''Systolic'')"
  by (simp add: derive_features_def Let_def expected_columns_def)

lemma preprocess_input_None:
  "Blood_Pressure d = None \<Longrightarrow> preprocess_input d = ([], Inl (KeyError ''Systolic''))"
  by (simp add: preprocess_input_def DataFrame_def Let_def derive_features_no_bp)

lemma preprocess_input_no_slash:
  "Blood_Pressure d = Some bp \<Longrightarrow> CHR ''/'' \<notin> set bp \<Longrightarrow>
   preprocess_input d =
     ([''Tekanan darah harus diisi dengan format benar, misal: 120/80''],
      Inl (ValueError ''Input tekanan darah tidak valid''))"
  by (simp add: preprocess_input_def Let_def)

lemma preprocess_input_split:
  assumes "Blood_Pressure d = Some bp" and "CHR ''/'' \<in> set bp"
    and "str_split CHR ''/'' bp = s0 # s1 # rest"
  shows "preprocess_input d =
     (case (py_float s0, py_float s1) of
        (Some sy, Some di) \<Rightarrow> ([], Inr (feature_row d sy di))
      | _ \<Rightarrow> bp_error)"
proof -
  have ne: "bp \<noteq> []"
    using assms(2) by auto
  show ?thesis
    using assms ne
    by (simp add: preprocess_input_def DataFrame_def Let_def df_drop_def
        derive_features_frame feature_row_def bp_error_def
        split: option.split)
qed

lemma split_examples:
  "str_split CHR ''/'' ''120/80'' = [''120'', ''80'']"
  "str_split CHR ''/'' ''abc/80'' = [''abc'', ''80'']"
  "str_split CHR ''/'' ''120/80/70'' = [''120'', ''80'', ''70'']"
  by simp_all

lemma py_float_examples:
  "py_float ''120'' = Some (Num 120)"
  "py_float ''80'' = Some (Num 80)"
  "py_float ''70'' = Some (Num 70)"
  "py_float ''abc'' = None"
  by code_simp+

lemma preprocess_input_cases:
  "preprocess_input d =
     (case Blood_Pressure d of
        None \<Rightarrow> ([], Inl (KeyError ''Systolic''))
      | Some bp \<Rightarrow>
          if CHR ''/'' \<notin> set bp
          then ([''Tekanan darah harus diisi dengan format benar, misal: 120/80''],
                Inl (ValueError ''Input tekanan darah tidak valid''))
          else (case (py_float (str_split CHR ''/'' bp ! 0), py_float (str_split CHR ''/'' bp ! 1)) of
                  (Some sy, Some di) \<Rightarrow> ([], Inr (feature_row d sy di))
                | _ \<Rightarrow> bp_error))"
proof (cases "Blood_Pressure d")
  case None
  then show ?thesis by (simp add: preprocess_input_None)
next
  case (Some bp)
  show ?thesis
  proof (cases "CHR ''/'' \<in> set bp")
    case True
    then obtain s0 s1 rest where sp: "str_split CHR ''/'' bp = s0 # s1 # rest"
      by (rule str_split_two)
    show ?thesis
      using Some True sp preprocess_input_split [OF Some True sp] by simp
  next
    case False
    then show ?thesis
      using Some by (simp add: preprocess_input_no_slash)
  qed
qed






text \<open>
  Claim C10. A gender other than \<^verbatim>\<open>'Female'\<close> and \<^verbatim>\<open>'Male'\<close> never makes
  \<^verbatim>\<open>preprocess_input\<close> raise: it raises on such a record exactly when it raises on the
  same record with the gender Female. Every frame it returns for such a record has NaN
  in the gender column, and it does return one, with no message, whenever the blood
  pressure parses. The form's own values \<^verbatim>\<open>'Perempuan'\<close> and \<^verbatim>\<open>'Laki-laki'\<close> are such
  genders.
\<close>

theorem unknown_gender_gives_nan:
  assumes "Gender d \<noteq> ''Female''" and "Gender d \<noteq> ''Male''"
  shows "(snd (preprocess_input d) = Inl e)
           = (snd (preprocess_input (d\<lparr>Gender := ''Female''\<rparr>)) = Inl e)
         \<and> (\<forall>df. snd (preprocess_input d) = Inr df \<longrightarrow> map_of df ''Gender'' = Some NaN)
         \<and> (\<forall>bp sy di.
               Blood_Pressure d = Some bp \<and> CHR ''/'' \<in> set bp
               \<and> py_float (str_split CHR ''/'' bp ! 0) = Some sy
               \<and> py_float (str_split CHR ''/'' bp ! 1) = Some di
               \<longrightarrow> (\<exists>df. preprocess_input d = ([], Inr df) \<and> hd df = (''Gender'', NaN)))"
proof -
  have g: "series_map gender_mapping (Str (Gender d)) = NaN"
    using assms by (simp add: series_map_def gender_mapping_def)
  show ?thesis
    by (auto simp: preprocess_input_cases bp_error_def feature_row_def g
        split: option.splits)
qed

theorem unknown_gender_gives_nan_witness:
  "Gender test_data = ''Perempuan''
   \<and> hd (projr (snd (preprocess_input test_data))) = (''Gender'', NaN)
   \<and> preprocess_input (test_data\<lparr>Gender := ''Laki-laki''\<rparr>)
       = ([], Inr ((''Gender'', NaN) # tl (feature_row test_data (Num 120) (Num 80))))"
proof -
  have a: "Gender test_data \<noteq> ''Female''" "Gender test_data \<noteq> ''Male''"
    by (simp_all add: test_data_def)
  have bp: "Blood_Pressure test_data = Some ''120/80'' \<and> CHR ''/'' \<in> set ''120/80''
      \<and> py_float (str_split CHR ''/'' ''120/80'' ! 0) = Some (Num 120)
      \<and> py_float (str_split CHR ''/'' ''120/80'' ! 1) = Some (Num 80)"
    by (simp add: test_data_def split_examples py_float_examples)
  from unknown_gender_gives_nan [OF a] bp
  have "\<exists>df. preprocess_input test_data = ([], Inr df) \<and> hd df = (''Gender'', NaN)"
    by blast
  then have 1: "hd (projr (snd (preprocess_input test_data))) = (''Gender'', NaN)"
    by auto
  have 2: "preprocess_input (test_data\<lparr>Gender := ''Laki-laki''\<rparr>)
       = ([], Inr ((''Gender'', NaN) # tl (feature_row test_data (Num 120) (Num 80))))"
    by (simp add: preprocess_input_cases test_data_def split_examples py_float_examples
        feature_row_def series_map_def gender_mapping_def)
  show ?thesis
    using 1 2 by (simp add: test_data_def)
qed

section \<open>Properties of the presentation and of the application\<close>


text \<open>
  The three paths through \<^verbatim>\<open>main\<close> that the claims about the artifact and the result
  page use.
\<close>

lemma main_unavailable:
  "started s = Some True \<Longrightarrow>
   main (Inl e) w s = (s, [Header, Error (''Error loading model: '' @ e)] @ model_error, False)"
  by (simp add: main_def load_model_def Let_def model_error_def)

lemma main_result_page:
  assumes "started s = Some True" and "page s = Some ''result''"
    and "\<not> btn_home w" and "\<not> btn_info w" and "\<not> btn_credit w"
  shows "main (Inr m) w s =
     (if btn_kembali w then s\<lparr>page := Some ''home''\<rparr> else s,
      [Header, Sidebar]
      @ (case input_data s of None \<Rightarrow> [] | Some d \<Rightarrow> shown_result d)
      @ [Kembali_Button],
      btn_kembali w)"
  using assms
  by (simp add: main_def load_model_def Let_def result_page_def shown_result_def
      split: option.split prod.split)

lemma main_home_submit:
  assumes "started s = Some True" and "page s = Some ''home'' \<or> page s = None \<or> btn_home w"
    and "\<not> btn_info w" and "\<not> btn_credit w" and "submit w"
    and "validate_form (form w) = None"
  shows "main (Inr m) w s =
     (s\<lparr>input_data := Some (make_input_data (form w)), page := Some ''result''\<rparr>,
      [Header, Sidebar, Home_Page], True)"
  using assms
  by (auto simp: main_def load_model_def Let_def home_page_def)

text \<open>
  The source compares the percentage \<open>p * 100\<close> with 80, 60, 90 and 70. For the
  probabilities that the scorer returns for a predicted class, the product in binary64
  arithmetic is exactly the percentage, so the tier of a result of the scorer is
  the same in floating point as in exact arithmetic.
\<close>

lemma percent_binary64:
  "\<forall>p \<in> set [45/100, 60/100, 75/100, 90/100, 70/100, 80/100]. fmul (b64 p) 100 = p * 100"
  by code_simp

lemma predicted_percentage_binary64:
  "(case predict_insomnia_rule_based d of (prediction, (pN, pI)) \<Rightarrow>
      (let p = (if prediction = 1 then pI else pN) in fmul (b64 p) 100 = p * 100))"
proof -
  obtain l pN pI where r: "score_to_result (rule_score d) = (l, (pN, pI))"
    by (metis prod.exhaust)
  then have "(if l = 1 then pI else pN) \<in> set [45/100, 60/100, 75/100, 90/100, 70/100, 80/100]"
    by (auto simp: score_to_result_def split: if_splits)
  with percent_binary64
  have "fmul (b64 (if l = 1 then pI else pN)) 100 = (if l = 1 then pI else pN) * 100"
    by blast
  with r show ?thesis
    by (simp add: predict_insomnia_rule_based_def Let_def)
qed

text \<open>
  Claim C6 as stated has every valid submission answered by the rule-based path even
  when the artifact is unavailable. Take a form that passes every check. With the
  artifact unavailable, submitting it shows only the two error messages and leaves the
  session state as it was, and a session that already is on the result page shows the
  same two messages and no result. With the artifact available the same submission
  shows the result of the scorer.
\<close>

theorem artifact_failure_blocks_result:
  "validate_form form_A = None
   \<and> run (Inl ''No such file'' :: string + unit) submit_A started_home
       = (started_home, [Header, Error ''Error loading model: No such file''] @ model_error, False)
   \<and> run (Inl ''No such file'' :: string + unit) (no_events submit_A) result_session
       = (result_session, [Header, Error ''Error loading model: No such file''] @ model_error, False)
   \<and> run (Inr ()) submit_A started_home
       = (started_home\<lparr>input_data := Some (make_input_data form_A), page := Some ''result''\<rparr>,
          [Header, Sidebar, Heading 1, Probabilities 10 90, Info 90,
           Recommendation Risiko_Tinggi 90, Kembali_Button], False)"
  by code_simp

text \<open>
  Claim C6, as amended. A failing load is caught: \<^verbatim>\<open>load_model\<close> shows the error and
  returns \<^verbatim>\<open>None\<close>, no exception leaves it. In a started session \<^verbatim>\<open>main\<close> then shows
  that the model cannot be loaded and returns before any page: the page holds the two
  messages and no result, and the session state is unchanged, whatever was submitted.
  When the artifact loads, a valid submission from the home page ends on the result page
  with the result of the rule-based scorer, whatever the loaded classifier is.
\<close>

theorem artifact_failure:
  "load_model (Inl e :: string + 'm) = ([Error (''Error loading model: '' @ e)], None)
   \<and> (started s = Some True \<longrightarrow>
        run (Inl e :: string + 'm) w s = (s, [Header, Error (''Error loading model: '' @ e)] @ model_error, False))
   \<and> (started s = Some True \<and> (page s = Some ''home'' \<or> page s = None \<or> btn_home w)
        \<and> \<not> btn_info w \<and> \<not> btn_credit w \<and> submit w \<and> validate_form (form w) = None \<longrightarrow>
        run (Inr m :: string + 'm) w s
          = (s\<lparr>input_data := Some (make_input_data (form w)), page := Some ''result''\<rparr>,
             [Header, Sidebar] @ shown_result (make_input_data (form w)) @ [Kembali_Button],
             False))"
proof (intro conjI impI)
  show "load_model (Inl e :: string + 'm) = ([Error (''Error loading model: '' @ e)], None)"
    by (simp add: load_model_def)
next
  assume "started s = Some True"
  then show "run (Inl e :: string + 'm) w s
      = (s, [Header, Error (''Error loading model: '' @ e)] @ model_error, False)"
    by (simp add: run_def main_unavailable)
next
  assume a: "started s = Some True \<and> (page s = Some ''home'' \<or> page s = None \<or> btn_home w)
        \<and> \<not> btn_info w \<and> \<not> btn_credit w \<and> submit w \<and> validate_form (form w) = None"
  let ?s = "s\<lparr>input_data := Some (make_input_data (form w)), page := Some ''result''\<rparr>"
  have 1: "main (Inr m) w s = (?s, [Header, Sidebar, Home_Page], True)"
    using a by (intro main_home_submit) simp_all
  have 2: "main (Inr m) (no_events w) ?s =
      (?s, [Header, Sidebar] @ shown_result (make_input_data (form w)) @ [Kembali_Button], False)"
    using a by (subst main_result_page) (simp_all add: no_events_def)
  show "run (Inr m :: string + 'm) w s
      = (?s, [Header, Sidebar] @ shown_result (make_input_data (form w)) @ [Kembali_Button], False)"
    by (simp add: run_def 1 2)
qed

theorem artifact_failure_witness:
  "run (Inl ''No such file'' :: string + unit) submit_A started_home
       = (started_home, [Header, Error ''Error loading model: No such file''] @ model_error, False)
   \<and> run (Inr ()) submit_A started_home
       = (started_home\<lparr>input_data := Some (make_input_data form_A), page := Some ''result''\<rparr>,
          [Header, Sidebar] @ shown_result (make_input_data form_A) @ [Kembali_Button], False)"
proof -
  have v: "validate_form form_A = None"
    by code_simp
  have h: "started started_home = Some True" "page started_home = Some ''home''"
    "\<not> btn_info submit_A" "\<not> btn_credit submit_A" "submit submit_A" "form submit_A = form_A"
    by (simp_all add: started_home_def submit_A_def)
  from artifact_failure [of "''No such file''" started_home submit_A "()"] v h
  show ?thesis by simp
qed



end
